theory Spec2Isabelle
  imports Main "HOL-Library.Sublist"
begin

section \<open>JavaScript values\<close>

text \<open>
  The values that reach the library from its callers and from the server: the JSON
  values, and \<open>undefined\<close>. Numbers are the safe integers, those of absolute value
  below \<open>2^53\<close>, and \<open>NaN\<close>: each safe integer is a number of JavaScript, and
  JavaScript prints it as its decimal digits. Fractions and larger numbers, which
  JavaScript rounds and prints in other forms, are not values of the model. An object
  is the list of its own properties. Functions are kept apart (\<open>jsfun\<close>): the
  library only calls them.
\<close>

typedef safe_int = "{n :: int. \<bar>n\<bar> < 2 ^ 53}"
  morphisms int_of safe_int
  by (rule exI [of _ 0]) simp

datatype jsval =
    JUndefined
  | JNull
  | JBool bool
  | JNum safe_int
  | JNaN
  | JStr string
  | JArr "jsval list"
  | JObj "(string \<times> jsval) list"

text \<open>A function value: \<open>console.log\<close>, or a function of the caller, named by a number.\<close>

datatype jsfun = console_log | UserFun nat

text \<open>What a \<open>throw\<close> or a failed evaluation raises.\<close>

datatype js_error =
    Thrown string
  | ReferenceError string

text \<open>\<open>ToBoolean\<close>: the test of \<open>!x\<close>, \<open>x && y\<close> and \<open>x ? a : b\<close>.\<close>

fun truthy :: "jsval \<Rightarrow> bool" where
  "truthy JUndefined = False"
| "truthy JNull = False"
| "truthy (JBool b) = b"
| "truthy (JNum n) = (int_of n \<noteq> 0)"
| "truthy JNaN = False"
| "truthy (JStr s) = (s \<noteq> [])"
| "truthy (JArr xs) = True"
| "truthy (JObj ps) = True"

text \<open>The decimal digits of a natural number, most significant first.\<close>

definition digit_char :: "nat \<Rightarrow> char" where
  "digit_char d = ''0123456789'' ! d"

fun nat_to_string :: "nat \<Rightarrow> string" where
  "nat_to_string n =
     (if n < 10 then [digit_char n]
      else nat_to_string (n div 10) @ [digit_char (n mod 10)])"

declare nat_to_string.simps [simp del]

text \<open>\<open>Number::toString\<close> on a safe integer: a minus sign if negative, and the digits.\<close>

definition num_to_string :: "safe_int \<Rightarrow> string" where
  "num_to_string n =
     (let i = int_of n
      in if i < 0 then CHR ''-'' # nat_to_string (nat (- i)) else nat_to_string (nat i))"

text \<open>\<open>Array.prototype.join\<close> with the separator \<open>,\<close>, on the strings of the elements.\<close>

fun join_comma :: "string list \<Rightarrow> string" where
  "join_comma [] = []"
| "join_comma [s] = s"
| "join_comma (s # t # ts) = s @ '','' @ join_comma (t # ts)"

text \<open>
  \<open>ToString\<close>, as string concatenation and \<open>String.prototype.replace\<close> apply it.
  An array joins its elements, where \<open>null\<close> and \<open>undefined\<close> give the empty string.
\<close>

fun js_to_string :: "jsval \<Rightarrow> string" where
  "js_to_string JUndefined = ''undefined''"
| "js_to_string JNull = ''null''"
| "js_to_string (JBool b) = (if b then ''true'' else ''false'')"
| "js_to_string (JNum n) = num_to_string n"
| "js_to_string JNaN = ''NaN''"
| "js_to_string (JStr s) = s"
| "js_to_string (JArr xs) =
     join_comma (map (\<lambda>x. if x = JUndefined \<or> x = JNull then [] else js_to_string x) xs)"
| "js_to_string (JObj ps) = ''[object Object]''"

text \<open>
  Reading a property \<open>v.name\<close> where \<open>name\<close> is none of the built-in properties of
  strings, arrays and objects (the library reads \<open>d\<close>, \<open>value\<close>,
  \<open>GetContextWebInformation\<close> and \<open>FormDigestValue\<close>): an object gives its own
  property, every other value \<open>undefined\<close>. The source guards each read with
  \<open>&&\<close>, so that \<open>null\<close> and \<open>undefined\<close> are never read from.
\<close>

fun get_prop :: "jsval \<Rightarrow> string \<Rightarrow> jsval" where
  "get_prop (JObj ps) name = (case map_of ps name of None \<Rightarrow> JUndefined | Some v \<Rightarrow> v)"
| "get_prop v name = JUndefined"

text \<open>\<open>a && b\<close>: the left operand when it is falsy, the right one otherwise.\<close>

definition js_and :: "jsval \<Rightarrow> jsval \<Rightarrow> jsval" where
  "js_and a b = (if truthy a then b else a)"

section \<open>The polyfills\<close>

text \<open>\<open>\d\<close> of a regular expression without the unicode flag.\<close>

definition is_digit :: "char \<Rightarrow> bool" where
  "is_digit c = (c \<in> set ''0123456789'')"

text \<open>The number a string of digits denotes.\<close>

definition digits_value :: "string \<Rightarrow> nat" where
  "digits_value ds = foldl (\<lambda>n c. 10 * n + (of_char c - 48)) 0 ds"

text \<open>
  \<open>args[number]\<close>, where \<open>number\<close> is the string the group \<open>(\d+)\<close> captured: the
  \<open>arguments\<close> object has a property for the canonical decimal string of every index
  below its length, and no other property whose name is a string of digits (so
  \<open>args["01"]\<close> is \<open>undefined\<close>).
\<close>

definition arguments_get :: "jsval list \<Rightarrow> string \<Rightarrow> jsval" where
  "arguments_get args number =
     (let n = digits_value number
      in if nat_to_string n = number \<and> n < length args then args ! n else JUndefined)"

text \<open>
  The callback of \<open>replace\<close> in \<open>String.prototype.format\<close>: the argument, if its type
  is not \<open>undefined\<close>, and the match itself otherwise. \<open>replace\<close> converts the result
  to a string.
\<close>

definition format_replacement :: "jsval list \<Rightarrow> string \<Rightarrow> string" where
  "format_replacement args number =
     (if arguments_get args number \<noteq> JUndefined
      then js_to_string (arguments_get args number)
      else ''{'' @ number @ ''}'')"

text \<open>
  \<open>String.prototype.format\<close>: \<open>this.replace(/{(\d+)}/g, ...)\<close>. The scan goes from
  left to right; a match is an opening brace, the longest run of digits after it, which
  must not be empty, and a closing brace. The text of a replacement is not scanned again.
\<close>

function format :: "string \<Rightarrow> jsval list \<Rightarrow> string" where
  "format [] args = []"
| "format (c # cs) args =
     (if c = CHR ''{'' \<and> takeWhile is_digit cs \<noteq> [] \<and>
         dropWhile is_digit cs \<noteq> [] \<and> hd (dropWhile is_digit cs) = CHR ''}''
      then format_replacement args (takeWhile is_digit cs) @ format (tl (dropWhile is_digit cs)) args
      else c # format cs args)"
  by pat_completeness auto
termination
proof (relation "measure (\<lambda>(s, args). length s)")
  show "wf (measure (\<lambda>(s, args). length s))" by simp
next
  fix c :: char and cs :: string and args :: "jsval list"
  have "length (tl (dropWhile is_digit cs)) \<le> length cs"
    using length_dropWhile_le [of is_digit cs] by simp
  then show "((tl (dropWhile is_digit cs), args), c # cs, args) \<in> measure (\<lambda>(s, args). length s)"
    by simp
next
  fix c :: char and cs :: string and args :: "jsval list"
  show "((cs, args), c # cs, args) \<in> measure (\<lambda>(s, args). length s)"
    by simp
qed

text \<open>
  \<open>String.prototype.includes\<close> as the polyfill has it, called without \<open>start\<close> (so
  \<open>start\<close> is 0); \<open>sublist search s\<close> is \<open>this.indexOf(search, 0) !== -1\<close>.
\<close>

definition includes_str :: "string \<Rightarrow> string \<Rightarrow> bool" where
  "includes_str s search =
     (if 0 + length search > length s then False else sublist search s)"

section \<open>The options\<close>

text \<open>\<open>SpRestApi.Verbosity\<close>.\<close>

definition Verbosity_COMPACT :: string where
  "Verbosity_COMPACT = ''application/json;odata=nometadata''"

definition Verbosity_MINIMAL :: string where
  "Verbosity_MINIMAL = ''application/json;odata=minimalmetadata''"

definition Verbosity_VERBOSE :: string where
  "Verbosity_VERBOSE = ''application/json;odata=verbose''"

text \<open>The object \<open>urls\<close> of the options: the two URL templates.\<close>

record SpRestApiUrls =
  list :: string
  item :: string

text \<open>
  \<open>SpRestApiOptions\<close>, with the types of its documentation. \<open>filters\<close> is documented
  and never read; the default options have no such property, so it starts as
  \<open>undefined\<close>.
\<close>

record SpRestApiOptions =
  onsuccess :: jsfun
  onerror :: jsfun
  listTitle :: string
  maxItems :: safe_int
  recursiveFetch :: bool
  verbosity :: string
  siteUrl :: string
  token :: string
  urls :: SpRestApiUrls
  filters :: jsval

text \<open>
  A property of the partial options object a caller passes to the constructor and to
  \<open>config\<close>; the object is the list of its properties. A property whose value is
  \<open>undefined\<close> is the same as an absent one to \<open>$.extend\<close>, which skips it.
\<close>

datatype option_property =
    P_onsuccess jsfun
  | P_onerror jsfun
  | P_listTitle string
  | P_maxItems safe_int
  | P_recursiveFetch bool
  | P_verbosity string
  | P_siteUrl string
  | P_token string
  | P_urls SpRestApiUrls
  | P_filters jsval

text \<open>\<open>target[name] = copy\<close>, the assignment in the loop of \<open>$.extend\<close>.\<close>

fun assign_property :: "SpRestApiOptions \<Rightarrow> option_property \<Rightarrow> SpRestApiOptions" where
  "assign_property t (P_onsuccess f) = t\<lparr>onsuccess := f\<rparr>"
| "assign_property t (P_onerror f) = t\<lparr>onerror := f\<rparr>"
| "assign_property t (P_listTitle s) = t\<lparr>listTitle := s\<rparr>"
| "assign_property t (P_maxItems n) = t\<lparr>maxItems := n\<rparr>"
| "assign_property t (P_recursiveFetch b) = t\<lparr>recursiveFetch := b\<rparr>"
| "assign_property t (P_verbosity s) = t\<lparr>verbosity := s\<rparr>"
| "assign_property t (P_siteUrl s) = t\<lparr>siteUrl := s\<rparr>"
| "assign_property t (P_token s) = t\<lparr>token := s\<rparr>"
| "assign_property t (P_urls u) = t\<lparr>urls := u\<rparr>"
| "assign_property t (P_filters v) = t\<lparr>filters := v\<rparr>"

text \<open>
  \<open>$.extend(target, options)\<close>, not deep: every property of \<open>options\<close> is assigned to
  \<open>target\<close>, in order, and \<open>target\<close> is returned. The model returns the new contents
  of the target object; that the result is the same object is in \<open>SpRestApi_new\<close> and
  \<open>config\<close>.
\<close>

definition jQuery_extend :: "SpRestApiOptions \<Rightarrow> option_property list \<Rightarrow> SpRestApiOptions" where
  "jQuery_extend target props = foldl assign_property target props"

section \<open>The state\<close>

text \<open>
  The page the script runs in, as far as the constructor reads it:
  \<open>_spPageContextInfo.webAbsoluteUrl\<close> when \<open>_spPageContextInfo\<close> is truthy, and the
  value of the element \<open>__REQUESTDIGEST\<close> when the document has one.
\<close>

record page =
  webAbsoluteUrl :: "string option"
  REQUESTDIGEST :: "string option"

text \<open>
  An instance of \<open>SpRestApi\<close> has two own properties, \<open>defaultOptions\<close> and
  \<open>options\<close>, each a reference to an options object. The state holds the options
  objects and the instances, each under its reference, and the property \<open>options\<close>
  of the global object, which \<open>refreshDigest\<close> writes. A method takes the state and
  \<open>this\<close>, the reference of the instance it is called on.
\<close>

type_synonym ref = nat

record SpRestApi =
  defaultOptions :: ref
  options :: ref

record js_state =
  objects :: "ref \<Rightarrow> SpRestApiOptions"
  instances :: "ref \<Rightarrow> SpRestApi"
  next_ref :: ref
  window_options :: jsval

text \<open>\<open>this.options\<close>, read through the two references.\<close>

definition this_options :: "js_state \<Rightarrow> ref \<Rightarrow> SpRestApiOptions" where
  "this_options st this = objects st (options (instances st this))"

text \<open>The object literal the constructor assigns to \<open>this.defaultOptions\<close>.\<close>

definition default_urls :: SpRestApiUrls where
  "default_urls =
     \<lparr>list = ''/_api/web/lists/getbytitle('{0}')/items'',
      item = ''/_api/web/lists/getbytitle('{0}')/items({1})''\<rparr>"

definition default_options :: "page \<Rightarrow> SpRestApiOptions" where
  "default_options pg =
     \<lparr>onsuccess = console_log,
      onerror = console_log,
      listTitle = [],
      maxItems = safe_int 100,
      recursiveFetch = True,
      verbosity = Verbosity_VERBOSE,
      siteUrl = (case webAbsoluteUrl pg of Some u \<Rightarrow> u | None \<Rightarrow> []),
      token = (case REQUESTDIGEST pg of Some v \<Rightarrow> v | None \<Rightarrow> []),
      urls = default_urls,
      filters = JUndefined\<rparr>"

text \<open>
  \<open>new SpRestApi(options)\<close>: a new instance, whose reference is the value of the
  expression. The object literal is a new object; \<open>$.extend\<close> changes it and returns
  it, so \<open>this.options\<close> and \<open>this.defaultOptions\<close> are one object.
\<close>

definition SpRestApi_new :: "page \<Rightarrow> option_property list \<Rightarrow> js_state \<Rightarrow> ref \<times> js_state" where
  "SpRestApi_new pg props st =
     (next_ref st,
      st\<lparr>objects := (objects st)(next_ref st := jQuery_extend (default_options pg) props),
         instances := (instances st)
           (next_ref st := \<lparr>defaultOptions = next_ref st, options = next_ref st\<rparr>),
         next_ref := Suc (next_ref st)\<rparr>)"

section \<open>The methods\<close>

text \<open>
  \<open>lists\<close>: \<open>this.options.listTitle = listTitle; return this\<close>. The first component
  of the result is the value returned, the second the state after the call.
\<close>

definition lists :: "js_state \<Rightarrow> ref \<Rightarrow> string \<Rightarrow> ref \<times> js_state" where
  "lists st this title =
     (this,
      st\<lparr>objects := (objects st)
           (options (instances st this) := (this_options st this)\<lparr>listTitle := title\<rparr>)\<rparr>)"

text \<open>
  \<open>config\<close>: \<open>this.options = $.extend(this.defaultOptions, options); return this\<close>.
  The object \<open>this.defaultOptions\<close> refers to is changed, and \<open>this.options\<close> is made
  to refer to it; the value returned is \<open>this\<close>.
\<close>

definition config :: "js_state \<Rightarrow> ref \<Rightarrow> option_property list \<Rightarrow> ref \<times> js_state" where
  "config st this props =
     (let r = defaultOptions (instances st this)
      in (this,
          st\<lparr>objects := (objects st)(r := jQuery_extend (objects st r) props),
             instances := (instances st)(this := (instances st this)\<lparr>options := r\<rparr>)\<rparr>))"

text \<open>
  The settings object \<open>loadUrl\<close> passes to \<open>$.ajax\<close>. A \<open>handler\<close> is a function
  \<open>loadUrl\<close> was given as \<open>success\<close> or \<open>error\<close>: a function of the caller, or one of
  the two closures of \<open>refreshDigest\<close>, the first of which holds the \<open>callback\<close>
  argument. In the settings it stands for the wrapper
  \<open>function (data) { success(data); }\<close> around it.
\<close>

datatype js_callback = Function jsfun | NotAFunction jsval

datatype handler =
    Caller jsfun
  | DigestSuccess js_callback
  | DigestError

record ajax_settings =
  url :: string
  type :: string
  cache :: bool
  contentType :: string
  headers :: "(string \<times> string) list"
  success :: handler
  error :: handler

text \<open>
  A method that talks to the server either throws or returns, having called \<open>$.ajax\<close>
  with the settings listed.
\<close>

type_synonym requests = "js_error + ajax_settings list"

definition loadUrl :: "js_state \<Rightarrow> ref \<Rightarrow> string \<Rightarrow> string \<Rightarrow> handler \<Rightarrow> handler \<Rightarrow> requests" where
  "loadUrl st this u method succ err =
     Inr [\<lparr>url = u,
           type = method,
           cache = False,
           contentType = verbosity (this_options st this),
           headers = [(''Accept'', verbosity (this_options st this)),
                      (''X-RequestDigest'', token (this_options st this))],
           success = succ,
           error = err\<rparr>]"

definition addMaxItems :: "js_state \<Rightarrow> ref \<Rightarrow> string \<Rightarrow> string" where
  "addMaxItems st this u =
     (let u1 = u @ (if includes_str u ''?'' then ''&'' else ''?'')
      in u1 @ ''$top='' @ num_to_string (maxItems (this_options st this)))"

definition generateGetAllListItemsUrl :: "js_state \<Rightarrow> ref \<Rightarrow> string" where
  "generateGetAllListItemsUrl st this =
     (let u = siteUrl (this_options st this) @
              format (list (urls (this_options st this))) [JStr (listTitle (this_options st this))]
      in addMaxItems st this u)"

text \<open>
  The call \<open>generateGetAllListItemsUrl()\<close> in the first statement of \<open>getAllItems\<close>:
  a bare identifier, not a property of \<open>this\<close>. It is no parameter and no local
  variable of the method, and the script binds one global name, \<open>SpRestApi\<close>; the
  function of that name is a property of \<open>SpRestApi.prototype\<close> only. Evaluating the
  identifier throws a \<open>ReferenceError\<close>.
\<close>

definition bare_generateGetAllListItemsUrl :: "js_error + string" where
  "bare_generateGetAllListItemsUrl = Inl (ReferenceError ''generateGetAllListItemsUrl'')"

text \<open>
  \<open>getAllItems\<close>: \<open>var url = generateGetAllListItemsUrl();\<close> and then
  \<open>this.loadUrl(url, 'GET', this.options.onsuccess, this.options.onerror)\<close>, which
  is reached only if the first statement returns.
\<close>

definition getAllItems :: "js_state \<Rightarrow> ref \<Rightarrow> requests" where
  "getAllItems st this =
     (case bare_generateGetAllListItemsUrl of
        Inl e \<Rightarrow> Inl e
      | Inr u \<Rightarrow> loadUrl st this u ''GET'' (Caller (onsuccess (this_options st this)))
                  (Caller (onerror (this_options st this))))"

definition getAllItemsFromListSubfolder :: "js_state \<Rightarrow> ref \<Rightarrow> string \<Rightarrow> requests" where
  "getAllItemsFromListSubfolder st this subfolderName =
     (let fileref = ''Lists/'' @ listTitle (this_options st this) @ ''/'' @ subfolderName @ ''/'';
          u = generateGetAllListItemsUrl st this @
              ''&$filter=substringof('' @ [CHR 0x27] @ fileref @ [CHR 0x27] @ '', FileRef)''
      in loadUrl st this u ''GET'' (Caller (onsuccess (this_options st this)))
           (Caller (onerror (this_options st this))))"

definition getItem :: "js_state \<Rightarrow> ref \<Rightarrow> jsval \<Rightarrow> requests" where
  "getItem st this itemId =
     (if \<not> truthy itemId then Inl (Thrown ''The list item ID must not be empty.'')
      else
        let u = siteUrl (this_options st this) @
                format (item (urls (this_options st this)))
                  [JStr (listTitle (this_options st this)), itemId]
        in loadUrl st this u ''GET'' (Caller (onsuccess (this_options st this)))
             (Caller (onerror (this_options st this))))"

text \<open>
  \<open>refreshDigest\<close>: the URL starts with \<open>this.siteUrl\<close>. The instance has no property
  \<open>siteUrl\<close> (its own properties are \<open>defaultOptions\<close> and \<open>options\<close>, and the
  prototype holds \<open>options\<close> and the methods), so the read gives \<open>undefined\<close>, which
  the concatenation turns into a string.
\<close>

definition refreshDigest :: "js_state \<Rightarrow> ref \<Rightarrow> js_callback \<Rightarrow> requests" where
  "refreshDigest st this callback =
     (let u = js_to_string JUndefined @ ''/_api/contextinfo''
      in loadUrl st this u ''POST'' (DigestSuccess callback) DigestError)"

section \<open>The response\<close>

text \<open>
  What the transport does with a request: it calls \<open>success\<close> of the settings, or
  \<open>error\<close>, each with one argument that the wrapper passes on.
\<close>

datatype ajax_result = Done jsval | Failed jsval

text \<open>A call of a function of the caller, with its arguments.\<close>

datatype event = Call jsfun "jsval list"

text \<open>\<open>data.<envelope>.GetContextWebInformation.FormDigestValue\<close>.\<close>

definition FormDigestValue :: "jsval \<Rightarrow> string \<Rightarrow> jsval" where
  "FormDigestValue data envelope =
     get_prop (get_prop (get_prop data envelope) ''GetContextWebInformation'') ''FormDigestValue''"

text \<open>
  The condition \<open>data && data.e && data.e.GetContextWebInformation &&
  data.e.GetContextWebInformation.FormDigestValue\<close> for the envelope \<open>e\<close>.
\<close>

definition has_digest :: "jsval \<Rightarrow> string \<Rightarrow> bool" where
  "has_digest data envelope =
     truthy (js_and (js_and (js_and data (get_prop data envelope))
                       (get_prop (get_prop data envelope) ''GetContextWebInformation''))
               (FormDigestValue data envelope))"

text \<open>\<open>if (typeof callback === 'function') { callback(); }\<close>.\<close>

fun call_if_function :: "js_callback \<Rightarrow> event list" where
  "call_if_function (Function f) = [Call f []]"
| "call_if_function (NotAFunction v) = []"

text \<open>
  Running a handler on the argument the transport gives it. A function of the caller is
  called with it. The closures of \<open>refreshDigest\<close> are called as plain functions by
  the wrapper, and the script is not in strict mode, so \<open>this\<close> in them is the global
  object: \<open>this.options = ...\<close> writes the global \<open>options\<close> and leaves the instances
  and their options objects as they are.
\<close>

fun run_handler :: "handler \<Rightarrow> jsval \<Rightarrow> js_state \<Rightarrow> js_error + (event list \<times> js_state)" where
  "run_handler (Caller f) data st = Inr ([Call f [data]], st)"
| "run_handler (DigestSuccess callback) data st =
     (if has_digest data ''d''
      then Inr (call_if_function callback, st\<lparr>window_options := FormDigestValue data ''d''\<rparr>)
      else if has_digest data ''value''
      then Inr (call_if_function callback, st\<lparr>window_options := FormDigestValue data ''value''\<rparr>)
      else Inl (Thrown ''Unable to obtain SharePoint authorization token.''))"
| "run_handler DigestError data st = Inl (Thrown ''Unable to obtain SharePoint authorization token'')"

definition ajax_complete :: "ajax_settings \<Rightarrow> ajax_result \<Rightarrow> js_state \<Rightarrow> js_error + (event list \<times> js_state)" where
  "ajax_complete s r st =
     (case r of Done data \<Rightarrow> run_handler (success s) data st
              | Failed data \<Rightarrow> run_handler (error s) data st)"

section \<open>Vocabulary of the properties\<close>

text \<open>The name of a property of a partial options object, and the read of a named option.\<close>

fun property_name :: "option_property \<Rightarrow> string" where
  "property_name (P_onsuccess f) = ''onsuccess''"
| "property_name (P_onerror f) = ''onerror''"
| "property_name (P_listTitle s) = ''listTitle''"
| "property_name (P_maxItems n) = ''maxItems''"
| "property_name (P_recursiveFetch b) = ''recursiveFetch''"
| "property_name (P_verbosity s) = ''verbosity''"
| "property_name (P_siteUrl s) = ''siteUrl''"
| "property_name (P_token s) = ''token''"
| "property_name (P_urls u) = ''urls''"
| "property_name (P_filters v) = ''filters''"

definition get_property :: "SpRestApiOptions \<Rightarrow> string \<Rightarrow> option_property option" where
  "get_property t name =
     (if name = ''onsuccess'' then Some (P_onsuccess (onsuccess t))
      else if name = ''onerror'' then Some (P_onerror (onerror t))
      else if name = ''listTitle'' then Some (P_listTitle (listTitle t))
      else if name = ''maxItems'' then Some (P_maxItems (maxItems t))
      else if name = ''recursiveFetch'' then Some (P_recursiveFetch (recursiveFetch t))
      else if name = ''verbosity'' then Some (P_verbosity (verbosity t))
      else if name = ''siteUrl'' then Some (P_siteUrl (siteUrl t))
      else if name = ''token'' then Some (P_token (token t))
      else if name = ''urls'' then Some (P_urls (urls t))
      else if name = ''filters'' then Some (P_filters (filters t))
      else None)"

text \<open>
  The two shapes of a response that bears a token: an object whose property \<open>d\<close> (or
  \<open>value\<close>) is an object whose property \<open>GetContextWebInformation\<close> is an object
  with a truthy property \<open>FormDigestValue\<close>.
\<close>

fun lookup_path :: "jsval \<Rightarrow> string list \<Rightarrow> jsval option" where
  "lookup_path v [] = Some v"
| "lookup_path (JObj ps) (k # ks) =
     (case map_of ps k of None \<Rightarrow> None | Some v \<Rightarrow> lookup_path v ks)"
| "lookup_path v (k # ks) = None"

definition truthy_at :: "jsval \<Rightarrow> string list \<Rightarrow> bool" where
  "truthy_at v path = (case lookup_path v path of None \<Rightarrow> False | Some x \<Rightarrow> truthy x)"

definition token_shape :: "jsval \<Rightarrow> string \<Rightarrow> bool" where
  "token_shape data envelope =
     truthy_at data [envelope, ''GetContextWebInformation'', ''FormDigestValue'']"

text \<open>
  A client for the examples: the state before any constructor has run, and the
  instance \<open>new SpRestApi({listTitle: 'Docs'})\<close> made in it on a page of the site
  \<open>https://h/s\<close> whose request digest is \<open>d0\<close>: \<open>docs_client\<close> is the reference of
  the instance, \<open>docs_state\<close> the state after the constructor.
\<close>

definition empty_state :: js_state where
  "empty_state =
     \<lparr>objects = (\<lambda>r. default_options \<lparr>webAbsoluteUrl = None, REQUESTDIGEST = None\<rparr>),
      instances = (\<lambda>r. \<lparr>defaultOptions = 0, options = 0\<rparr>),
      next_ref = 0,
      window_options = JUndefined\<rparr>"

definition docs_new :: "ref \<times> js_state" where
  "docs_new =
     SpRestApi_new \<lparr>webAbsoluteUrl = Some ''https://h/s'', REQUESTDIGEST = Some ''d0''\<rparr>
       [P_listTitle ''Docs''] empty_state"

definition docs_client :: ref where
  "docs_client = fst docs_new"

definition docs_state :: js_state where
  "docs_state = snd docs_new"

text \<open>
  A second instance, for the list \<open>Other\<close> of another site, with a page size of 25
  and a site URL that has a query string; and an instance whose \<open>options\<close> a caller
  has pointed at an object of its own, away from \<open>defaultOptions\<close>.
\<close>

definition other_new :: "ref \<times> js_state" where
  "other_new =
     SpRestApi_new \<lparr>webAbsoluteUrl = None, REQUESTDIGEST = None\<rparr>
       [P_listTitle ''Other'', P_siteUrl ''https://o/t?x=1'', P_maxItems (safe_int 25)] docs_state"

definition other_client :: ref where
  "other_client = fst other_new"

definition other_state :: js_state where
  "other_state = snd other_new"

definition unaliased_state :: js_state where
  "unaliased_state =
     docs_state\<lparr>objects := (objects docs_state)(7 := (objects docs_state 0)\<lparr>token := ''own''\<rparr>),
       instances := (instances docs_state)(docs_client := \<lparr>defaultOptions = 0, options = 7\<rparr>)\<rparr>"

text \<open>The response \<open>{d: {GetContextWebInformation: {FormDigestValue: 'tok'}}}\<close>.\<close>

definition digest_response :: jsval where
  "digest_response =
     JObj [(''d'', JObj [(''GetContextWebInformation'', JObj [(''FormDigestValue'', JStr ''tok'')])])]"

section \<open>Numbers and the polyfills: lemmas\<close>

lemma int_of_safe_int: "\<bar>n\<bar> < 2 ^ 53 \<Longrightarrow> int_of (safe_int n) = n"
  by (simp add: safe_int_inverse)



lemma sublist_single: "sublist [x] ys \<longleftrightarrow> x \<in> set ys"
  by (induction ys) (auto simp: sublist_Cons_right)

lemma includes_str_char: "includes_str u [c] \<longleftrightarrow> c \<in> set u"
  by (cases u) (simp_all add: includes_str_def sublist_single)

text \<open>
  A suffix that starts with neither a digit nor a closing brace is scanned on its own:
  no match of the pattern ends inside it after starting before it.
\<close>

lemma format_append:
  assumes "s = [] \<or> (\<not> is_digit (hd s) \<and> hd s \<noteq> CHR ''}'')"
  shows "format (p @ s) args = format p args @ format s args"
proof (induction p args rule: format.induct)
  case (1 args)
  show ?case by simp
next
  case (2 c cs args)
  from assms have tw: "takeWhile is_digit s = []" and dw: "dropWhile is_digit s = s"
    by (cases s; simp)+
  show ?case
  proof (cases "dropWhile is_digit cs = []")
    case True
    then have alld: "\<forall>x\<in>set cs. is_digit x"
      by simp
    have t: "takeWhile is_digit (cs @ s) = cs" and d: "dropWhile is_digit (cs @ s) = s"
      using alld tw dw by simp_all
    have "format ((c # cs) @ s) args = c # format (cs @ s) args"
      using t d assms by auto
    also have "\<dots> = c # format cs args @ format s args"
      using 2(2) True by simp
    also have "\<dots> = format (c # cs) args @ format s args"
      using True by simp
    finally show ?thesis .
  next
    case False
    then obtain x where x: "x \<in> set cs" "\<not> is_digit x"
      by auto
    have t: "takeWhile is_digit (cs @ s) = takeWhile is_digit cs"
      using x by (rule takeWhile_append1)
    have d: "dropWhile is_digit (cs @ s) = dropWhile is_digit cs @ s"
      using x by (rule dropWhile_append1)
    show ?thesis
    proof (cases "c = CHR ''{'' \<and> takeWhile is_digit cs \<noteq> [] \<and> hd (dropWhile is_digit cs) = CHR ''}''")
      case True
      then show ?thesis using 2(1) False t d by simp
    next
      case no_match: False
      then show ?thesis using 2(2) False t d by auto
    qed
  qed
qed

lemma digit_char_cases:
  assumes "d < 10"
  shows "is_digit (digit_char d) \<and> (of_char (digit_char d) :: nat) - 48 = d"
proof -
  from assms have "d \<in> {0, 1, 2, 3, 4, 5, 6, 7, 8, 9}" by auto
  then show ?thesis
    by (auto simp: is_digit_def digit_char_def)
qed

lemma nat_to_string_digits: "nat_to_string n \<noteq> [] \<and> list_all is_digit (nat_to_string n)"
proof (induction n rule: nat_to_string.induct)
  case (1 n)
  show ?case
  proof (cases "n < 10")
    case True
    then show ?thesis
      using digit_char_cases [of n] by (simp add: nat_to_string.simps [of n])
  next
    case False
    then show ?thesis
      using 1 digit_char_cases [of "n mod 10"] by (simp add: nat_to_string.simps [of n])
  qed
qed

lemma digits_value_snoc: "digits_value (ds @ [c]) = 10 * digits_value ds + (of_char c - 48)"
  by (simp add: digits_value_def)

text \<open>Reading the decimal string of a number gives the number back.\<close>

lemma digits_value_nat_to_string: "digits_value (nat_to_string n) = n"
proof (induction n rule: nat_to_string.induct)
  case (1 n)
  show ?case
  proof (cases "n < 10")
    case True
    then show ?thesis
      using digit_char_cases [of n]
      by (simp add: nat_to_string.simps [of n] digits_value_def)
  next
    case False
    have "digits_value (nat_to_string n) =
          10 * digits_value (nat_to_string (n div 10)) + (of_char (digit_char (n mod 10)) - 48)"
      using False by (simp add: nat_to_string.simps [of n] digits_value_snoc)
    also have "\<dots> = 10 * (n div 10) + n mod 10"
      using 1 False digit_char_cases [of "n mod 10"] by simp
    finally show ?thesis by simp
  qed
qed

lemma arguments_get_index:
  "arguments_get args (nat_to_string n) = (if n < length args then args ! n else JUndefined)"
  by (simp add: arguments_get_def digits_value_nat_to_string)

lemma format_placeholder:
  assumes "ds \<noteq> []" and "list_all is_digit ds"
  shows "format (''{'' @ ds @ ''}'' @ q) args = format_replacement args ds @ format q args"
proof -
  have nd: "\<not> is_digit CHR ''}''" by (simp add: is_digit_def)
  have all: "\<forall>x\<in>set ds. is_digit x" using assms(2) by (simp add: list_all_iff)
  have t: "takeWhile is_digit (ds @ CHR ''}'' # q) = ds"
    using all nd by simp
  have d: "dropWhile is_digit (ds @ CHR ''}'' # q) = CHR ''}'' # q"
    using all nd by simp
  show ?thesis using assms(1) t d by simp
qed


text \<open>The default template of a list, formatted with a list title.\<close>

lemma format_default_list:
  "format (list default_urls) [JStr title] =
     ''/_api/web/lists/getbytitle('' @ [CHR 0x27] @ title @ [CHR 0x27] @ '')/items''"
  by (simp add: default_urls_def is_digit_def format_replacement_def arguments_get_def
      digits_value_def nat_to_string.simps digit_char_def)

section \<open>The state: lemmas\<close>


text \<open>
  The constructor makes \<open>options\<close> and \<open>defaultOptions\<close> of the new instance one
  object, and \<open>lists\<close> and \<open>config\<close> keep them so.
\<close>

lemma SpRestApi_new_aliased:
  "SpRestApi_new pg props st = (this, st') \<Longrightarrow>
   options (instances st' this) = defaultOptions (instances st' this)"
  by (auto simp: SpRestApi_new_def)

lemma lists_aliased:
  "options (instances st this) = defaultOptions (instances st this) \<Longrightarrow>
   options (instances (snd (lists st this title)) this) =
   defaultOptions (instances (snd (lists st this title)) this)"
  by (simp add: lists_def)

lemma config_aliased:
  "options (instances (snd (config st this props)) this) =
   defaultOptions (instances (snd (config st this props)) this)"
  by (simp add: config_def Let_def)

lemma run_handler_state:
  "run_handler h data st = Inr (evs, st') \<Longrightarrow>
   objects st' = objects st \<and> instances st' = instances st"
  by (cases h) (auto split: if_splits)

lemma assign_property_other:
  "name \<noteq> property_name x \<Longrightarrow> get_property (assign_property t x) name = get_property t name"
  by (cases x) (simp_all add: get_property_def)

lemma jQuery_extend_other:
  "name \<notin> property_name ` set props \<Longrightarrow>
   get_property (jQuery_extend t props) name = get_property t name"
  unfolding jQuery_extend_def
  by (induction props arbitrary: t) (simp_all add: assign_property_other)

text \<open>The URL of a list, from the options it is built from.\<close>

lemma generateGetAllListItemsUrl_eq:
  "generateGetAllListItemsUrl st this =
     (siteUrl (this_options st this) @
      format (list (urls (this_options st this))) [JStr (listTitle (this_options st this))]) @
     (if CHR ''?'' \<in> set (siteUrl (this_options st this) @
           format (list (urls (this_options st this))) [JStr (listTitle (this_options st this))])
      then ''&'' else ''?'') @
     ''$top='' @ num_to_string (maxItems (this_options st this))"
  by (simp add: generateGetAllListItemsUrl_def addMaxItems_def includes_str_char Let_def)

lemma docs_client_ref: "docs_client = 0"
  by (simp add: docs_client_def docs_new_def SpRestApi_new_def empty_state_def)

lemma docs_client_options:
  "this_options docs_state docs_client =
     \<lparr>onsuccess = console_log, onerror = console_log, listTitle = ''Docs'',
      maxItems = safe_int 100, recursiveFetch = True, verbosity = Verbosity_VERBOSE,
      siteUrl = ''https://h/s'', token = ''d0'', urls = default_urls, filters = JUndefined\<rparr>"
  by (simp add: docs_client_def docs_state_def docs_new_def SpRestApi_new_def empty_state_def
      this_options_def jQuery_extend_def default_options_def)

lemma docs_client_instance:
  "instances docs_state docs_client = \<lparr>defaultOptions = 0, options = 0\<rparr>"
  by (simp add: docs_client_def docs_state_def docs_new_def SpRestApi_new_def empty_state_def)

lemma other_client_ref: "other_client = 1"
  by (simp add: other_client_def other_new_def SpRestApi_new_def docs_state_def docs_new_def
      empty_state_def)

lemma other_client_options:
  "this_options other_state other_client =
     \<lparr>onsuccess = console_log, onerror = console_log, listTitle = ''Other'',
      maxItems = safe_int 25, recursiveFetch = True, verbosity = Verbosity_VERBOSE,
      siteUrl = ''https://o/t?x=1'', token = [], urls = default_urls, filters = JUndefined\<rparr>"
  by (simp add: other_client_def other_state_def other_new_def SpRestApi_new_def
      this_options_def jQuery_extend_def default_options_def)

lemma num_to_string_100: "num_to_string (safe_int 100) = ''100''"
  by (simp add: num_to_string_def int_of_safe_int nat_to_string.simps digit_char_def)

lemma num_to_string_25: "num_to_string (safe_int 25) = ''25''"
  by (simp add: num_to_string_def int_of_safe_int nat_to_string.simps digit_char_def)


lemma truthy_get_prop: "truthy (get_prop v k) \<Longrightarrow> truthy v"
  by (cases v) simp_all

lemma truthy_at_undefined: "\<not> truthy_at JUndefined path"
  by (cases path) (simp_all add: truthy_at_def)

lemma truthy_at_step: "truthy_at v (k # ks) \<longleftrightarrow> truthy_at (get_prop v k) ks"
proof (cases v)
  case (JObj ps)
  then show ?thesis
    using truthy_at_undefined [of ks]
    by (cases "map_of ps k") (simp_all add: truthy_at_def)
qed (use truthy_at_undefined [of ks] in \<open>simp_all add: truthy_at_def\<close>)

lemma has_digest_shape: "has_digest data envelope \<longleftrightarrow> token_shape data envelope"
proof -
  have "token_shape data envelope \<longleftrightarrow> truthy (FormDigestValue data envelope)"
    by (simp add: token_shape_def truthy_at_step FormDigestValue_def)
       (simp add: truthy_at_def)
  moreover have "has_digest data envelope \<longleftrightarrow> truthy (FormDigestValue data envelope)"
    using truthy_get_prop [of data envelope]
      truthy_get_prop [of "get_prop data envelope" "''GetContextWebInformation''"]
      truthy_get_prop [of "get_prop (get_prop data envelope) ''GetContextWebInformation''"
        "''FormDigestValue''"]
    by (auto simp: has_digest_def js_and_def FormDigestValue_def)
  ultimately show ?thesis by simp
qed

text \<open>
  No method reads \<open>recursiveFetch\<close>: two instances whose options differ in that flag
  only make the same calls of \<open>$.ajax\<close>, or throw the same error.
\<close>

lemma recursiveFetch_not_read:
  assumes "this_options st' this' = (this_options st this)\<lparr>recursiveFetch := b\<rparr>"
  shows "getAllItems st' this' = getAllItems st this"
    and "getAllItemsFromListSubfolder st' this' subfolderName =
         getAllItemsFromListSubfolder st this subfolderName"
    and "getItem st' this' itemId = getItem st this itemId"
    and "loadUrl st' this' u m s e = loadUrl st this u m s e"
    and "refreshDigest st' this' callback = refreshDigest st this callback"
    and "generateGetAllListItemsUrl st' this' = generateGetAllListItemsUrl st this"
    and "addMaxItems st' this' u = addMaxItems st this u"
  using assms
  by (simp_all add: getAllItems_def bare_generateGetAllListItemsUrl_def
      getAllItemsFromListSubfolder_def getItem_def loadUrl_def
      refreshDigest_def generateGetAllListItemsUrl_def addMaxItems_def Let_def)

text \<open>Each method that reaches \<open>loadUrl\<close> calls \<open>$.ajax\<close> once: there is no loop.\<close>

lemma one_request:
  "\<exists>r. loadUrl st this u m s e = Inr [r]"
  "\<exists>r. getAllItemsFromListSubfolder st this subfolderName = Inr [r]"
  "\<exists>r. refreshDigest st this callback = Inr [r]"
  "truthy itemId \<Longrightarrow> \<exists>r. getItem st this itemId = Inr [r]"
  by (simp_all add: getAllItemsFromListSubfolder_def getItem_def loadUrl_def
      refreshDigest_def Let_def)

section \<open>The claims\<close>

text \<open>
  C1. Claimed: \<open>getAllItems\<close> builds the list URL with the page-size parameter and
  issues a GET routed to the configured callbacks. On the client for the list \<open>Docs\<close>
  the method throws a \<open>ReferenceError\<close> instead and issues no request, although the
  URL it was meant to request is well defined.
\<close>

theorem getAllItems_throws:
  "getAllItems docs_state docs_client = Inl (ReferenceError ''generateGetAllListItemsUrl'') \<and>
   generateGetAllListItemsUrl docs_state docs_client =
     ''https://h/s/_api/web/lists/getbytitle('Docs')/items?$top=100''"
  by (simp add: getAllItems_def bare_generateGetAllListItemsUrl_def
      generateGetAllListItemsUrl_eq docs_client_options format_default_list num_to_string_100)

text \<open>
  C2. Claimed: \<open>refreshDigest\<close> posts to the configured site URL followed by
  \<open>/_api/contextinfo\<close>, and on a response that bears a token stores the token in the
  options and calls the callback. On the client for \<open>https://h/s\<close> the request goes
  to \<open>undefined/_api/contextinfo\<close>, and after the response
  \<open>{d: {GetContextWebInformation: {FormDigestValue: 'tok'}}}\<close>, which has the first
  of the two shapes, the callback is called, the token of the options is still \<open>d0\<close>,
  and the new token is in the global \<open>options\<close>.
\<close>

theorem refreshDigest_url_and_token:
  "refreshDigest docs_state docs_client (Function (UserFun 1)) =
     Inr [\<lparr>url = ''undefined/_api/contextinfo'', type = ''POST'', cache = False,
           contentType = ''application/json;odata=verbose'',
           headers = [(''Accept'', ''application/json;odata=verbose''), (''X-RequestDigest'', ''d0'')],
           success = DigestSuccess (Function (UserFun 1)), error = DigestError\<rparr>] \<and>
   siteUrl (this_options docs_state docs_client) @ ''/_api/contextinfo'' =
     ''https://h/s/_api/contextinfo'' \<and>
   token_shape digest_response ''d'' \<and>
   ajax_complete
     \<lparr>url = ''undefined/_api/contextinfo'', type = ''POST'', cache = False,
      contentType = ''application/json;odata=verbose'',
      headers = [(''Accept'', ''application/json;odata=verbose''), (''X-RequestDigest'', ''d0'')],
      success = DigestSuccess (Function (UserFun 1)), error = DigestError\<rparr>
     (Done digest_response) docs_state =
     Inr ([Call (UserFun 1) []], docs_state\<lparr>window_options := JStr ''tok''\<rparr>) \<and>
   token (this_options (docs_state\<lparr>window_options := JStr ''tok''\<rparr>) docs_client) = ''d0''"
  using docs_client_options
  by (simp add: refreshDigest_def loadUrl_def Verbosity_VERBOSE_def digest_response_def
      has_digest_def js_and_def FormDigestValue_def this_options_def ajax_complete_def
      token_shape_def truthy_at_def)



text \<open>
  C4. \<open>getAllItemsFromListSubfolder\<close> issues one GET, routed to the configured
  callbacks. Its URL is the site URL, the list template formatted with the list title,
  \<open>?\<close> or \<open>&\<close>, \<open>$top=\<close> and the page size, and then the parameter \<open>$filter\<close>
  whose predicate holds \<open>Lists/<listTitle>/<subfolderName>/\<close>, which the URL so
  contains. With the default list template the URL is
  \<open><siteUrl>/_api/web/lists/getbytitle('<listTitle>')/items\<close> with these parameters.
\<close>

theorem subfolder_filter:
  "(\<exists>r. getAllItemsFromListSubfolder st this subfolderName = Inr [r] \<and> type r = ''GET'' \<and>
        url r =
          (siteUrl (this_options st this) @
           format (list (urls (this_options st this))) [JStr (listTitle (this_options st this))]) @
          (if CHR ''?'' \<in> set (siteUrl (this_options st this) @
                format (list (urls (this_options st this)))
                  [JStr (listTitle (this_options st this))])
           then ''&'' else ''?'') @
          ''$top='' @ num_to_string (maxItems (this_options st this)) @
          ''&$filter=substringof('' @ [CHR 0x27] @
          (''Lists/'' @ listTitle (this_options st this) @ ''/'' @ subfolderName @ ''/'') @
          [CHR 0x27] @ '', FileRef)'' \<and>
        sublist (''Lists/'' @ listTitle (this_options st this) @ ''/'' @ subfolderName @ ''/'')
          (url r) \<and>
        success r = Caller (onsuccess (this_options st this)) \<and>
        error r = Caller (onerror (this_options st this))) \<and>
   (list (urls (this_options st this)) = list default_urls \<longrightarrow>
      (\<exists>r. getAllItemsFromListSubfolder st this subfolderName = Inr [r] \<and>
           url r =
             siteUrl (this_options st this) @ ''/_api/web/lists/getbytitle('' @ [CHR 0x27] @
             listTitle (this_options st this) @ [CHR 0x27] @ '')/items'' @
             (if CHR ''?'' \<in> set (siteUrl (this_options st this)) \<union>
                              set (listTitle (this_options st this))
              then ''&'' else ''?'') @
             ''$top='' @ num_to_string (maxItems (this_options st this)) @
             ''&$filter=substringof('' @ [CHR 0x27] @
             (''Lists/'' @ listTitle (this_options st this) @ ''/'' @ subfolderName @ ''/'') @
             [CHR 0x27] @ '', FileRef)''))"
proof -
  let ?o = "this_options st this"
  let ?f = "''Lists/'' @ listTitle ?o @ ''/'' @ subfolderName @ ''/''"
  let ?g = "generateGetAllListItemsUrl st this"
  have "sublist ?f ((?g @ ''&$filter=substringof('' @ [CHR 0x27]) @ ?f @
                    ([CHR 0x27] @ '', FileRef)''))"
    by (rule sublist_appendI)
  then have sub: "sublist ?f (?g @ ''&$filter=substringof('' @ [CHR 0x27] @ ?f @
                    [CHR 0x27] @ '', FileRef)'')"
    by simp
  have req: "getAllItemsFromListSubfolder st this subfolderName =
      Inr [\<lparr>url = ?g @ ''&$filter=substringof('' @ [CHR 0x27] @ ?f @ [CHR 0x27] @ '', FileRef)'',
            type = ''GET'', cache = False, contentType = verbosity ?o,
            headers = [(''Accept'', verbosity ?o), (''X-RequestDigest'', token ?o)],
            success = Caller (onsuccess ?o), error = Caller (onerror ?o)\<rparr>]"
    by (simp add: getAllItemsFromListSubfolder_def loadUrl_def Let_def)
  have general: "\<exists>r. getAllItemsFromListSubfolder st this subfolderName = Inr [r] \<and>
        type r = ''GET'' \<and>
        url r =
          (siteUrl ?o @ format (list (urls ?o)) [JStr (listTitle ?o)]) @
          (if CHR ''?'' \<in> set (siteUrl ?o @ format (list (urls ?o)) [JStr (listTitle ?o)])
           then ''&'' else ''?'') @
          ''$top='' @ num_to_string (maxItems ?o) @
          ''&$filter=substringof('' @ [CHR 0x27] @ ?f @ [CHR 0x27] @ '', FileRef)'' \<and>
        sublist ?f (url r) \<and>
        success r = Caller (onsuccess ?o) \<and> error r = Caller (onerror ?o)"
    unfolding req using sub
    by (simp add: generateGetAllListItemsUrl_eq)
  have default: "\<exists>r. getAllItemsFromListSubfolder st this subfolderName = Inr [r] \<and>
        url r =
          siteUrl ?o @ ''/_api/web/lists/getbytitle('' @ [CHR 0x27] @
          listTitle ?o @ [CHR 0x27] @ '')/items'' @
          (if CHR ''?'' \<in> set (siteUrl ?o) \<union> set (listTitle ?o) then ''&'' else ''?'') @
          ''$top='' @ num_to_string (maxItems ?o) @
          ''&$filter=substringof('' @ [CHR 0x27] @ ?f @ [CHR 0x27] @ '', FileRef)''"
    if "list (urls ?o) = list default_urls"
    unfolding req using that
    by (simp add: generateGetAllListItemsUrl_eq format_default_list)
  from general default show ?thesis
    by blast
qed

theorem subfolder_filter_witness:
  "list (urls (this_options docs_state docs_client)) = list default_urls \<and>
   list (urls (this_options other_state other_client)) = list default_urls \<and>
   (\<exists>r. getAllItemsFromListSubfolder docs_state docs_client ''Drafts'' = Inr [r] \<and>
        sublist ''Lists/Docs/Drafts/'' (url r) \<and>
        url r = ''https://h/s/_api/web/lists/getbytitle('Docs')/items?$top=100'' @
                ''&$filter=substringof('' @ [CHR 0x27] @ ''Lists/Docs/Drafts/'' @ [CHR 0x27] @
                '', FileRef)'') \<and>
   (\<exists>r. getAllItemsFromListSubfolder other_state other_client ''Old'' = Inr [r] \<and>
        url r = ''https://o/t?x=1/_api/web/lists/getbytitle('Other')/items&$top=25'' @
                ''&$filter=substringof('' @ [CHR 0x27] @ ''Lists/Other/Old/'' @ [CHR 0x27] @
                '', FileRef)'')"
proof -
  have d: "list (urls (this_options docs_state docs_client)) = list default_urls"
    by (simp add: docs_client_options)
  have o: "list (urls (this_options other_state other_client)) = list default_urls"
    by (simp add: other_client_options)
  from subfolder_filter [of docs_state docs_client "''Drafts''"] obtain r where
    r: "getAllItemsFromListSubfolder docs_state docs_client ''Drafts'' = Inr [r]" and
    "sublist (''Lists/'' @ listTitle (this_options docs_state docs_client) @ ''/'' @
              ''Drafts'' @ ''/'') (url r)"
    by blast
  then have rs: "sublist ''Lists/Docs/Drafts/'' (url r)"
    by (simp add: docs_client_options)
  from subfolder_filter [of docs_state docs_client "''Drafts''"] d obtain r' where
    "getAllItemsFromListSubfolder docs_state docs_client ''Drafts'' = Inr [r']" and
    "url r' =
       siteUrl (this_options docs_state docs_client) @ ''/_api/web/lists/getbytitle('' @
       [CHR 0x27] @ listTitle (this_options docs_state docs_client) @ [CHR 0x27] @ '')/items'' @
       (if CHR ''?'' \<in> set (siteUrl (this_options docs_state docs_client)) \<union>
                        set (listTitle (this_options docs_state docs_client))
        then ''&'' else ''?'') @
       ''$top='' @ num_to_string (maxItems (this_options docs_state docs_client)) @
       ''&$filter=substringof('' @ [CHR 0x27] @
       (''Lists/'' @ listTitle (this_options docs_state docs_client) @ ''/'' @ ''Drafts'' @ ''/'') @
       [CHR 0x27] @ '', FileRef)''"
    by blast
  with r have ru: "url r = ''https://h/s/_api/web/lists/getbytitle('Docs')/items?$top=100'' @
                ''&$filter=substringof('' @ [CHR 0x27] @ ''Lists/Docs/Drafts/'' @ [CHR 0x27] @
                '', FileRef)''"
    by (simp add: docs_client_options num_to_string_100)
  from subfolder_filter [of other_state other_client "''Old''"] o obtain q where
    q: "getAllItemsFromListSubfolder other_state other_client ''Old'' = Inr [q]" and
    "url q =
       siteUrl (this_options other_state other_client) @ ''/_api/web/lists/getbytitle('' @
       [CHR 0x27] @ listTitle (this_options other_state other_client) @ [CHR 0x27] @ '')/items'' @
       (if CHR ''?'' \<in> set (siteUrl (this_options other_state other_client)) \<union>
                        set (listTitle (this_options other_state other_client))
        then ''&'' else ''?'') @
       ''$top='' @ num_to_string (maxItems (this_options other_state other_client)) @
       ''&$filter=substringof('' @ [CHR 0x27] @
       (''Lists/'' @ listTitle (this_options other_state other_client) @ ''/'' @ ''Old'' @ ''/'') @
       [CHR 0x27] @ '', FileRef)''"
    by blast
  then have qu: "url q = ''https://o/t?x=1/_api/web/lists/getbytitle('Other')/items&$top=25'' @
                ''&$filter=substringof('' @ [CHR 0x27] @ ''Lists/Other/Old/'' @ [CHR 0x27] @
                '', FileRef)''"
    by (simp add: other_client_options num_to_string_25)
  from d o r rs ru q qu show ?thesis
    by blast
qed

text \<open>
  C5. A call of \<open>config\<close> returns the instance it was called on, whatever the state
  of the instance, so calls chain; \<open>config\<close> with a token and then, on the value it
  returned, \<open>config\<close> with a list title returns the instance again and leaves the
  token of the first call in the options. On an instance whose \<open>options\<close> and
  \<open>defaultOptions\<close> are one object, as the constructor makes them, every option that
  the argument does not name keeps its value.
\<close>

theorem config_retains_unnamed:
  "fst (config st this props) = this \<and>
   fst (config (snd (config st this [P_token t])) (fst (config st this [P_token t]))
          [P_listTitle x]) = this \<and>
   token (this_options
            (snd (config (snd (config st this [P_token t])) (fst (config st this [P_token t]))
                    [P_listTitle x]))
            this) = t \<and>
   (options (instances st this) = defaultOptions (instances st this) \<longrightarrow>
      (\<forall>name. name \<notin> property_name ` set props \<longrightarrow>
         get_property (this_options (snd (config st this props)) this) name =
         get_property (this_options st this) name))"
proof -
  have ret: "fst (config s a ps) = a" for s a ps
    by (simp add: config_def Let_def)
  have "token (this_options
            (snd (config (snd (config st this [P_token t])) (fst (config st this [P_token t]))
                    [P_listTitle x]))
            this) = t"
    by (simp add: config_def this_options_def jQuery_extend_def Let_def)
  moreover have "get_property (this_options (snd (config st this props)) this) name =
      get_property (this_options st this) name"
    if "options (instances st this) = defaultOptions (instances st this)"
      and "name \<notin> property_name ` set props" for name
    using that by (simp add: config_def this_options_def Let_def jQuery_extend_other)
  ultimately show ?thesis
    using ret by simp
qed

theorem config_retains_unnamed_witness:
  "options (instances docs_state docs_client) = defaultOptions (instances docs_state docs_client) \<and>
   ''token'' \<notin> property_name ` set [P_listTitle ''X''] \<and>
   get_property (this_options (snd (config docs_state docs_client [P_listTitle ''X'']))
      docs_client) ''token'' = Some (P_token ''d0'') \<and>
   fst (config docs_state docs_client [P_listTitle ''X'']) = docs_client \<and>
   fst (config unaliased_state docs_client [P_listTitle ''X'']) = docs_client \<and>
   token (this_options
            (snd (config (snd (config docs_state docs_client [P_token ''t'']))
                    (fst (config docs_state docs_client [P_token ''t''])) [P_listTitle ''X'']))
            docs_client) = ''t''"
proof -
  have a: "options (instances docs_state docs_client) =
      defaultOptions (instances docs_state docs_client)"
    by (simp add: docs_client_instance)
  have n: "''token'' \<notin> property_name ` set [P_listTitle ''X'']"
    by simp
  note inst = config_retains_unnamed [of docs_state docs_client "[P_listTitle ''X'']" "''t''" "''X''"]
  note inst' = config_retains_unnamed [of unaliased_state docs_client "[P_listTitle ''X'']"]
  have "token (this_options
            (snd (config (snd (config docs_state docs_client [P_token ''t'']))
                    (fst (config docs_state docs_client [P_token ''t''])) [P_listTitle ''X'']))
            docs_client) = ''t''"
    using inst by blast
  moreover have "fst (config docs_state docs_client [P_listTitle ''X'']) = docs_client"
    using inst by blast
  moreover have "fst (config unaliased_state docs_client [P_listTitle ''X'']) = docs_client"
    using inst' by blast
  moreover have "get_property (this_options (snd (config docs_state docs_client [P_listTitle ''X'']))
      docs_client) ''token'' = get_property (this_options docs_state docs_client) ''token''"
    using inst a n by blast
  moreover have "get_property (this_options docs_state docs_client) ''token'' = Some (P_token ''d0'')"
    by (simp add: docs_client_options get_property_def)
  ultimately show ?thesis using a n by simp
qed

text \<open>
  C6. \<open>addMaxItems\<close> returns the URL, then \<open>?\<close> when the URL has no \<open>?\<close> in it
  and \<open>&\<close> when it has one, then \<open>$top=\<close> and the configured \<open>maxItems\<close>.
\<close>

theorem addMaxItems_appends:
  "addMaxItems st this u =
     u @ (if CHR ''?'' \<in> set u then ''&'' else ''?'') @ ''$top='' @
     num_to_string (maxItems (this_options st this))"
  by (simp add: addMaxItems_def includes_str_char)

theorem addMaxItems_appends_witness:
  "addMaxItems docs_state docs_client ''https://h/items'' = ''https://h/items?$top=100'' \<and>
   addMaxItems docs_state docs_client ''https://h/items?a=1'' = ''https://h/items?a=1&$top=100''"
  using addMaxItems_appends [of docs_state docs_client "''https://h/items''"]
    addMaxItems_appends [of docs_state docs_client "''https://h/items?a=1''"]
  by (simp add: docs_client_options num_to_string_100)

text \<open>
  C7. \<open>refreshDigest\<close> reports a failure by throwing: the request it makes does not
  carry the configured \<open>onerror\<close>; when the request fails the handler throws, and
  when the request succeeds the handler throws exactly when the response has neither
  of the two shapes that bear a token.
\<close>

theorem refreshDigest_raises:
  "\<exists>r. refreshDigest st this callback = Inr [r] \<and>
       error r \<noteq> Caller (onerror (this_options st this)) \<and>
       (\<forall>x st'. ajax_complete r (Failed x) st' =
          Inl (Thrown ''Unable to obtain SharePoint authorization token'')) \<and>
       (\<forall>data st'.
          (ajax_complete r (Done data) st' =
             Inl (Thrown ''Unable to obtain SharePoint authorization token.'')) \<longleftrightarrow>
          (\<not> token_shape data ''d'' \<and> \<not> token_shape data ''value''))"
  by (simp add: refreshDigest_def loadUrl_def ajax_complete_def has_digest_shape)

theorem refreshDigest_raises_witness:
  "\<not> token_shape (JObj [(''d'', JObj [])]) ''d'' \<and>
   \<not> token_shape (JObj [(''d'', JObj [])]) ''value'' \<and>
   (\<exists>r. refreshDigest docs_state docs_client (Function (UserFun 1)) = Inr [r] \<and>
        ajax_complete r (Done (JObj [(''d'', JObj [])])) docs_state =
          Inl (Thrown ''Unable to obtain SharePoint authorization token.'') \<and>
        ajax_complete r (Failed JNull) docs_state =
          Inl (Thrown ''Unable to obtain SharePoint authorization token''))"
proof -
  have n: "\<not> token_shape (JObj [(''d'', JObj [])]) ''d'' \<and>
           \<not> token_shape (JObj [(''d'', JObj [])]) ''value''"
    by (simp add: token_shape_def truthy_at_def)
  from refreshDigest_raises [of docs_state docs_client "Function (UserFun 1)"] n
  show ?thesis by blast
qed

text \<open>
  C8. \<open>loadUrl\<close> makes one call of \<open>$.ajax\<close>, with the URL and the method it was
  given, with the content type and the \<open>Accept\<close> header set to the configured
  verbosity and the header \<open>X-RequestDigest\<close> set to the configured token; after
  \<open>config\<close> has set the verbosity to a member of the enumeration, the header is the
  literal of that member.
\<close>

theorem loadUrl_settings:
  "(\<exists>r. loadUrl st this u m s e = Inr [r] \<and> url r = u \<and> type r = m \<and>
        contentType r = verbosity (this_options st this) \<and>
        map_of (headers r) ''Accept'' = Some (verbosity (this_options st this)) \<and>
        map_of (headers r) ''X-RequestDigest'' = Some (token (this_options st this)) \<and>
        success r = s \<and> error r = e) \<and>
   (\<exists>r. loadUrl (snd (config st this [P_verbosity Verbosity_COMPACT]))
          (fst (config st this [P_verbosity Verbosity_COMPACT])) u m s e = Inr [r] \<and> url r = u \<and>
        contentType r = ''application/json;odata=nometadata'' \<and>
        map_of (headers r) ''Accept'' = Some ''application/json;odata=nometadata'') \<and>
   (\<exists>r. loadUrl (snd (config st this [P_verbosity Verbosity_MINIMAL]))
          (fst (config st this [P_verbosity Verbosity_MINIMAL])) u m s e = Inr [r] \<and> url r = u \<and>
        contentType r = ''application/json;odata=minimalmetadata'' \<and>
        map_of (headers r) ''Accept'' = Some ''application/json;odata=minimalmetadata'') \<and>
   (\<exists>r. loadUrl (snd (config st this [P_verbosity Verbosity_VERBOSE]))
          (fst (config st this [P_verbosity Verbosity_VERBOSE])) u m s e = Inr [r] \<and> url r = u \<and>
        contentType r = ''application/json;odata=verbose'' \<and>
        map_of (headers r) ''Accept'' = Some ''application/json;odata=verbose'')"
  by (simp add: loadUrl_def config_def this_options_def jQuery_extend_def Let_def
      Verbosity_COMPACT_def Verbosity_MINIMAL_def Verbosity_VERBOSE_def)

theorem loadUrl_settings_witness:
  "\<exists>r. loadUrl docs_state docs_client ''https://h/s/_api/web'' ''DELETE''
          (Caller (UserFun 1)) (Caller (UserFun 2)) = Inr [r] \<and>
       url r = ''https://h/s/_api/web'' \<and> type r = ''DELETE'' \<and>
       contentType r = ''application/json;odata=verbose'' \<and>
       map_of (headers r) ''Accept'' = Some ''application/json;odata=verbose'' \<and>
       map_of (headers r) ''X-RequestDigest'' = Some ''d0''"
proof -
  from loadUrl_settings [of docs_state docs_client "''https://h/s/_api/web''" "''DELETE''"
      "Caller (UserFun 1)" "Caller (UserFun 2)"]
  obtain r where
    "loadUrl docs_state docs_client ''https://h/s/_api/web'' ''DELETE''
       (Caller (UserFun 1)) (Caller (UserFun 2)) = Inr [r]"
    and "url r = ''https://h/s/_api/web''" and "type r = ''DELETE''"
    and "contentType r = verbosity (this_options docs_state docs_client)"
    and "map_of (headers r) ''Accept'' = Some (verbosity (this_options docs_state docs_client))"
    and "map_of (headers r) ''X-RequestDigest'' = Some (token (this_options docs_state docs_client))"
    by blast
  then show ?thesis
    by (intro exI [of _ r]) (simp add: docs_client_options Verbosity_VERBOSE_def)
qed

text \<open>
  C9. Claimed: \<open>getAllItems\<close> issues exactly one request whatever the value of
  \<open>recursiveFetch\<close>. With the flag set and with the flag cleared, the method throws
  and issues no request.
\<close>

theorem getAllItems_no_request:
  "getAllItems (snd (config docs_state docs_client [P_recursiveFetch True])) docs_client =
     Inl (ReferenceError ''generateGetAllListItemsUrl'') \<and>
   getAllItems (snd (config docs_state docs_client [P_recursiveFetch False])) docs_client =
     Inl (ReferenceError ''generateGetAllListItemsUrl'') \<and>
   recursiveFetch
     (this_options (snd (config docs_state docs_client [P_recursiveFetch True])) docs_client) \<and>
   \<not> recursiveFetch
     (this_options (snd (config docs_state docs_client [P_recursiveFetch False])) docs_client)"
  by (simp add: getAllItems_def bare_generateGetAllListItemsUrl_def config_def this_options_def
      jQuery_extend_def Let_def)

text \<open>
  C10. \<open>format\<close> leaves a placeholder \<open>{n}\<close> as it is when there is no \<open>n\<close>-th
  argument, or when that argument is \<open>undefined\<close>: the text before it and the text
  after it are formatted as they are on their own, and the placeholder stays between
  them.
\<close>

theorem format_keeps_placeholder:
  assumes "length args \<le> n \<or> args ! n = JUndefined"
  shows "format (p @ ''{'' @ nat_to_string n @ ''}'' @ q) args =
         format p args @ ''{'' @ nat_to_string n @ ''}'' @ format q args"
proof -
  have "format (p @ (''{'' @ nat_to_string n @ ''}'' @ q)) args =
        format p args @ format (''{'' @ nat_to_string n @ ''}'' @ q) args"
    by (rule format_append) (simp add: is_digit_def)
  moreover have "format (''{'' @ nat_to_string n @ ''}'' @ q) args =
        format_replacement args (nat_to_string n) @ format q args"
    using nat_to_string_digits [of n] by (intro format_placeholder) simp_all
  moreover have "format_replacement args (nat_to_string n) = ''{'' @ nat_to_string n @ ''}''"
    using assms by (auto simp: format_replacement_def arguments_get_index)
  ultimately show ?thesis by simp
qed

theorem format_keeps_placeholder_witness:
  "length [JStr ''Docs''] \<le> 1 \<and>
   format ''/getbytitle('{0}')/items({1})'' [JStr ''Docs''] = ''/getbytitle('Docs')/items({1})''"
proof -
  have l: "length [JStr ''Docs''] \<le> 1"
    by simp
  then have h: "length [JStr ''Docs''] \<le> 1 \<or> [JStr ''Docs''] ! 1 = JUndefined"
    by (rule disjI1)
  have one: "nat_to_string 1 = ''1''"
    by (simp add: nat_to_string.simps digit_char_def)
  have p: "format ''/getbytitle('{0}')/items('' [JStr ''Docs''] = ''/getbytitle('Docs')/items(''"
    by (simp add: is_digit_def format_replacement_def arguments_get_def digits_value_def
        nat_to_string.simps digit_char_def)
  have q: "format '')'' [JStr ''Docs''] = '')''"
    by simp
  from format_keeps_placeholder [OF h, of "''/getbytitle('{0}')/items(''" "'')''"]
  have "format ''/getbytitle('{0}')/items({1})'' [JStr ''Docs''] = ''/getbytitle('Docs')/items({1})''"
    unfolding one p q by simp
  then show ?thesis using l by blast
qed

end
